theory Spec2Isabelle
  imports Main "HOL-Library.Word"
begin

section \<open>The command-line front end of go-gsst (main.go)\<close>

text \<open>
  The program parses its flags, builds the recognition options (\<open>fromFlags\<close>) and then
  either streams a FLAC file or forwards standard input through an in-process pipe to
  the streaming client. Everything the program does besides computing values is made
  explicit: a panic and \<open>os.Exit\<close> are outcomes, the calls to the collaborators
  (logger, client, pipe) are recorded in a trace, and the results of the calls the
  program cannot control (reading standard input, writing to the pipe, parsing the file)
  are inputs of the model.
\<close>

subsection \<open>Errors\<close>

datatype num_err = ErrSyntax | ErrRange

text \<open>
  Go error values the program meets: \<open>io.EOF\<close>, the \<open>*strconv.NumError\<close> of a failed
  conversion (function name, offending text, cause), \<open>io.ErrClosedPipe\<close>, and any
  other error, identified by its message.
\<close>

datatype go_error =
    EOF
  | NumError string string num_err
  | ErrClosedPipe
  | OtherError string

text \<open>A Go function that either returns a value or panics with an error value.\<close>

datatype 'a result = Return 'a | Panic go_error

subsection \<open>strconv.Atoi\<close>

text \<open>
  \<open>strconv.Atoi s\<close> is \<open>ParseInt(s, 10, 0)\<close> converted to \<open>int\<close>, on a platform whose
  \<open>int\<close> has 64 bits. \<open>ParseUint\<close> walks the bytes of the text: a byte that is not a
  decimal digit is a syntax error, and an accumulator that would leave the range of
  \<open>uint64\<close> is a range error, whichever comes first. \<open>ParseInt\<close> strips one leading sign
  and then checks the magnitude against \<open>2 ^ 63\<close>.
\<close>

definition maxUint64 :: nat where
  "maxUint64 = 2 ^ 64 - 1"

definition is_digit :: "char \<Rightarrow> bool" where
  "is_digit c = (of_char (CHR ''0'') \<le> (of_char c :: nat) \<and> (of_char c :: nat) \<le> of_char (CHR ''9''))"

definition digit_val :: "char \<Rightarrow> nat" where
  "digit_val c = of_char c - of_char (CHR ''0'')"

fun ParseUint_loop :: "nat \<Rightarrow> string \<Rightarrow> num_err + nat" where
  "ParseUint_loop n [] = Inr n"
| "ParseUint_loop n (c # cs) =
     (if \<not> is_digit c then Inl ErrSyntax
      else if n \<ge> maxUint64 div 10 + 1 then Inl ErrRange
      else if n * 10 + digit_val c > maxUint64 then Inl ErrRange
      else ParseUint_loop (n * 10 + digit_val c) cs)"

definition ParseUint :: "string \<Rightarrow> num_err + nat" where
  "ParseUint s = (if s = [] then Inl ErrSyntax else ParseUint_loop 0 s)"

definition ParseInt :: "string \<Rightarrow> num_err + int" where
  "ParseInt s =
     (if s = [] then Inl ErrSyntax
      else
        let neg = (hd s = CHR ''-'');
            s1 = (if hd s = CHR ''+'' \<or> hd s = CHR ''-'' then tl s else s)
        in case ParseUint s1 of
             Inl ErrSyntax \<Rightarrow> Inl ErrSyntax
           | Inl ErrRange \<Rightarrow> Inl ErrRange
           | Inr un \<Rightarrow>
               if \<not> neg \<and> un \<ge> 2 ^ 63 then Inl ErrRange
               else if neg \<and> un > 2 ^ 63 then Inl ErrRange
               else Inr (if neg then - int un else int un))"

definition Atoi :: "string \<Rightarrow> go_error + int" where
  "Atoi s = (case ParseInt s of
               Inl k \<Rightarrow> Inl (NumError ''Atoi'' s k)
             | Inr n \<Rightarrow> Inr n)"

text \<open>
  The reading of a text as a decimal numeral, most significant digit first, and the
  texts that consist of decimal digits, at least one. They say which texts \<open>Atoi\<close>
  accepts (lemma \<open>Atoi_accepts\<close>).
\<close>

definition decimal_value :: "nat \<Rightarrow> string \<Rightarrow> nat" where
  "decimal_value n s = foldl (\<lambda>a c. a * 10 + digit_val c) n s"

definition digits :: "string \<Rightarrow> bool" where
  "digits s = (s \<noteq> [] \<and> list_all is_digit s)"

subsection \<open>Flags\<close>

text \<open>The package-level variables that \<open>flag.Parse\<close> fills (main.go, lines 36 to 47).\<close>

record flags =
  verbose :: bool
  filePath :: string
  apiKey :: string
  "output" :: string
  language :: string
  continuous :: bool
  interim :: bool
  maxAlts :: string
  pFilter :: string
  userAgent :: string

text \<open>
  \<open>opts.DefaultUserAgent\<close> is declared in package \<open>opts\<close>; its value is the one the
  help text of the \<open>user-agent\<close> flag quotes (main.go, line 60).
\<close>

definition DefaultUserAgent :: string where
  "DefaultUserAgent =
     ''Mozilla/5.0 (X11; Linux x86_64) AppleWebKit/537.36 (KHTML, like Gecko) Chrome/119.0.0.0 Safari/537.36''"

text \<open>The defaults registered with the flag package (main.go, lines 51 to 60).\<close>

definition default_flags :: flags where
  "default_flags =
     \<lparr> verbose = False, filePath = [], apiKey = [], output = [], language = ''null'',
       continuous = False, interim = False, maxAlts = ''1'', pFilter = ''2'',
       userAgent = DefaultUserAgent \<rparr>"

text \<open>
  A command line, after tokenising, is a list of flag settings; \<open>flag.Parse\<close> stores
  each in its variable, the last setting of a flag winning. A flag that does not occur
  keeps its default.
\<close>

datatype flag_arg =
    ArgVerbose bool
  | ArgFile string
  | ArgKey string
  | ArgOutput string
  | ArgLanguage string
  | ArgContinuous bool
  | ArgInterim bool
  | ArgMaxAlts string
  | ArgPFilter string
  | ArgUserAgent string

fun set_flag :: "flags \<Rightarrow> flag_arg \<Rightarrow> flags" where
  "set_flag fl (ArgVerbose b) = fl\<lparr>verbose := b\<rparr>"
| "set_flag fl (ArgFile s) = fl\<lparr>filePath := s\<rparr>"
| "set_flag fl (ArgKey s) = fl\<lparr>apiKey := s\<rparr>"
| "set_flag fl (ArgOutput s) = fl\<lparr>output := s\<rparr>"
| "set_flag fl (ArgLanguage s) = fl\<lparr>language := s\<rparr>"
| "set_flag fl (ArgContinuous b) = fl\<lparr>continuous := b\<rparr>"
| "set_flag fl (ArgInterim b) = fl\<lparr>interim := b\<rparr>"
| "set_flag fl (ArgMaxAlts s) = fl\<lparr>maxAlts := s\<rparr>"
| "set_flag fl (ArgPFilter s) = fl\<lparr>pFilter := s\<rparr>"
| "set_flag fl (ArgUserAgent s) = fl\<lparr>userAgent := s\<rparr>"

definition parse_flags :: "flag_arg list \<Rightarrow> flags" where
  "parse_flags args = foldl set_flag default_flags args"

fun is_language_arg :: "flag_arg \<Rightarrow> bool" where
  "is_language_arg (ArgLanguage s) = True"
| "is_language_arg a = False"

subsection \<open>Options\<close>

datatype OutFmt = Binary | Text

text \<open>The option values that \<open>fromFlags\<close> builds with the setters of package \<open>opts\<close>.\<close>

datatype opt =
    Verbose bool
  | FilePath string
  | ApiKey string
  | Output OutFmt
  | Language string
  | Continuous bool
  | Interim bool
  | MaxAlts int
  | ProfanityFilter int
  | UserAgent string

text \<open>
  Modelled from the spec: the configuration record, \<open>opts.Apply\<close> and the meaning of the
  option setters (package \<open>opts\<close> is outside main.go). The specification
  describes the configuration as a builder-style accumulation of independent
  option-setters producing one value with the fields below; each setter stores its
  argument in its field. The specification's configuration has no field for the
  \<open>Verbose\<close> and \<open>FilePath\<close> options, which therefore leave it as it is. The
  configuration that \<open>Apply\<close> starts from is a parameter.
\<close>

record Options =
  cfg_language :: string
  cfg_continuous :: bool
  cfg_interim :: bool
  cfg_maxAlternatives :: int
  cfg_profanityFilter :: int
  cfg_outputEncoding :: OutFmt
  cfg_credential :: string
  cfg_userAgent :: string

text \<open>
  Modelled from the spec: the option setters of package \<open>opts\<close>, each storing its
  argument in the field it is named after.
\<close>

fun set_opt :: "Options \<Rightarrow> opt \<Rightarrow> Options" where
  "set_opt c (Verbose b) = c"
| "set_opt c (FilePath s) = c"
| "set_opt c (ApiKey s) = c\<lparr>cfg_credential := s\<rparr>"
| "set_opt c (Output f) = c\<lparr>cfg_outputEncoding := f\<rparr>"
| "set_opt c (Language s) = c\<lparr>cfg_language := s\<rparr>"
| "set_opt c (Continuous b) = c\<lparr>cfg_continuous := b\<rparr>"
| "set_opt c (Interim b) = c\<lparr>cfg_interim := b\<rparr>"
| "set_opt c (MaxAlts n) = c\<lparr>cfg_maxAlternatives := n\<rparr>"
| "set_opt c (ProfanityFilter n) = c\<lparr>cfg_profanityFilter := n\<rparr>"
| "set_opt c (UserAgent s) = c\<lparr>cfg_userAgent := s\<rparr>"

text \<open>
  Modelled from the spec: \<open>opts.Apply\<close>, which applies the setters in order to the
  configuration it starts from.
\<close>

definition Apply :: "Options \<Rightarrow> opt list \<Rightarrow> Options" where
  "Apply init options = foldl set_opt init options"

text \<open>
  Modelled from the spec: \<open>str.GetOrDefault\<close> (package \<open>str\<close> is outside main.go); the specification says that the user agent falls back to a fixed default
  string if empty.
\<close>

definition GetOrDefault :: "string \<Rightarrow> string \<Rightarrow> string" where
  "GetOrDefault s d = (if s = [] then d else s)"

subsection \<open>fromFlags\<close>

text \<open>The options appended before the two numeric ones (main.go, lines 125 to 151).\<close>

definition plain_options :: "flags \<Rightarrow> opt list" where
  "plain_options fl =
     (if verbose fl then [Verbose True] else []) @
     (if filePath fl \<noteq> [] then [FilePath (filePath fl)] else []) @
     (if apiKey fl \<noteq> [] then [ApiKey (apiKey fl)] else []) @
     (if output fl \<noteq> [] then
        (if output fl = ''json'' then [Output Text] else [Output Binary])
      else []) @
     (if language fl \<noteq> [] then [Language (language fl)] else []) @
     (if continuous fl then [Continuous True] else []) @
     (if interim fl then [Interim True] else [])"

text \<open>
  A numeric option (main.go, lines 152 to 165): an empty text appends nothing, a text
  that \<open>Atoi\<close> rejects panics with the conversion error.
\<close>

definition numeric_option :: "(int \<Rightarrow> opt) \<Rightarrow> string \<Rightarrow> opt list \<Rightarrow> opt list result" where
  "numeric_option mk s options =
     (if s \<noteq> [] then
        (case Atoi s of
           Inl err \<Rightarrow> Panic err
         | Inr num \<Rightarrow> Return (options @ [mk num]))
      else Return options)"

text \<open>The slice \<open>options\<close> that \<open>fromFlags\<close> hands to \<open>opts.Apply\<close>.\<close>

definition flag_options :: "flags \<Rightarrow> opt list result" where
  "flag_options fl =
     (case numeric_option MaxAlts (maxAlts fl) (plain_options fl) of
        Panic err \<Rightarrow> Panic err
      | Return options \<Rightarrow>
          (case numeric_option ProfanityFilter (pFilter fl) options of
             Panic err \<Rightarrow> Panic err
           | Return options \<Rightarrow>
               Return (options @ [UserAgent (GetOrDefault (userAgent fl) DefaultUserAgent)])))"

definition fromFlags :: "Options \<Rightarrow> flags \<Rightarrow> Options result" where
  "fromFlags init fl =
     (case flag_options fl of
        Panic err \<Rightarrow> Panic err
      | Return options \<Rightarrow> Return (Apply init options))"

subsection \<open>The collaborators of main\<close>

type_synonym byte = "8 word"

text \<open>
  A FLAC file as \<open>goflac.ParseFile\<close> returns it: \<open>GetStreamInfo\<close> yields the declared
  sample rate or an error, \<open>Marshal\<close> yields the bytes of the file.
\<close>

record flac_file =
  GetStreamInfo :: "go_error + int"
  Marshal :: "byte list"

text \<open>
  One call of \<open>os.Stdin.Read(bs)\<close>: the bytes delivered (their number is the \<open>n\<close> of
  the source) and the error returned with them.
\<close>

datatype read_result = ReadRes "byte list" "go_error option"

text \<open>
  One call of \<open>pw.Write(bs)\<close>: success, or failure after the pipe's reader took some
  of the bytes.
\<close>

datatype write_result = WriteOk | WriteErr nat go_error

text \<open>
  One iteration of the loop over standard input as the environment decides it: the
  result of the read, and the result the write to the pipe has if the iteration makes
  one.
\<close>

type_synonym io_step = "read_result \<times> write_result"

text \<open>
  What the program cannot control: the value of \<open>opts.DefaultSampleRate\<close> (declared in
  package \<open>opts\<close>), the configuration \<open>opts.Apply\<close> starts from, the file system seen
  through \<open>goflac.ParseFile\<close>, and the results of the successive reads of standard input
  and writes to the pipe. \<open>goflac.ParseFile\<close> returns an error, returns a file, or
  panics while it reads a malformed file; main does not recover, so such a panic ends
  the process.
\<close>

record env =
  DefaultSampleRate :: int
  initial_options :: Options
  ParseFile :: "string \<Rightarrow> (go_error + flac_file) result"
  stdin_steps :: "io_step list"

datatype source = FromBuffer "byte list" | FromPipeReader

text \<open>
  The calls main makes, in program order. \<open>Go body\<close> starts a goroutine that performs
  \<open>body\<close> concurrently; \<open>PipeWrite bs\<close> records the bytes the pipe took from one
  \<open>pw.Write\<close>.
\<close>

datatype action =
    SetLogLevelDebug
  | ClientNew
  | LogDebug string
  | LogInfo string
  | LogError string
  | Stream source int Options
  | PipeWrite "byte list"
  | PipeWriterClose
  | PipeReaderClose
  | Go "action list"

text \<open>
  How a run of main ends: it returns, it calls \<open>os.Exit\<close>, it panics, or (the loop
  over standard input only) it has used up the reads given and waits for the next one.
\<close>

datatype outcome = Returned | Exited int | Panicked go_error | AwaitingStdin

subsection \<open>The loop over standard input (main.go, lines 103 to 119)\<close>

text \<open>
  \<open>bs\<close> is the buffer of 1024 bytes. A read overwrites the first \<open>n\<close> bytes of the
  buffer and leaves the rest as it was; the write passes the whole buffer.
\<close>

fun stdin_loop :: "byte list \<Rightarrow> io_step list \<Rightarrow> outcome \<times> action list" where
  "stdin_loop bs [] = (AwaitingStdin, [])"
| "stdin_loop bs ((ReadRes data err, w) # rs) =
     (let d = take (length bs) data;
          n = length d;
          bs' = d @ drop n bs
      in if n > 0 then
           (case w of
              WriteErr m e \<Rightarrow> (Panicked e, [LogDebug ''read from stdin'', PipeWrite (take m bs')])
            | WriteOk \<Rightarrow>
                (case stdin_loop bs' rs of
                   (out, acts) \<Rightarrow> (out, LogDebug ''read from stdin'' # PipeWrite bs' # acts)))
         else if err = Some EOF then (Returned, [LogInfo ''done reading from stdin''])
         else if err \<noteq> None then (Exited 1, [LogError ''cannot not read from stdin''])
         else stdin_loop bs' rs)"

subsection \<open>main (lines 49 to 121)\<close>

definition startup :: "flags \<Rightarrow> action list" where
  "startup fl = (if verbose fl then [SetLogLevelDebug] else []) @ [ClientNew]"

definition main :: "env \<Rightarrow> flags \<Rightarrow> outcome \<times> action list" where
  "main ev fl =
     (case fromFlags (initial_options ev) fl of
        Panic err \<Rightarrow> (Panicked err, startup fl)
      | Return options \<Rightarrow>
          if filePath fl \<noteq> [] then
            (case ParseFile ev (filePath fl) of
               Panic err \<Rightarrow> (Panicked err, startup fl)
             | Return (Inl err) \<Rightarrow> (Exited 1, startup fl @ [LogError ''cannot parse file''])
             | Return (Inr f) \<Rightarrow>
                 (case GetStreamInfo f of
                    Inl err \<Rightarrow> (Exited 1, startup fl @ [LogError ''cannot get file info''])
                  | Inr rate \<Rightarrow>
                      (Returned, startup fl @
                         [LogInfo ''done parsing file'',
                          Stream (FromBuffer (Marshal f)) rate options])))
          else
            (case stdin_loop (replicate 1024 0) (stdin_steps ev) of
               (out, acts) \<Rightarrow>
                 (out, startup fl @
                    Go [Stream FromPipeReader (DefaultSampleRate ev) options,
                        PipeWriterClose, PipeReaderClose] # acts)))"

subsection \<open>Observations on a trace\<close>

text \<open>The invocations of the streaming operation, also those inside a goroutine.\<close>

fun invocations :: "action list \<Rightarrow> (source \<times> int \<times> Options) list" where
  "invocations [] = []"
| "invocations (Stream src rate options # as) = (src, rate, options) # invocations as"
| "invocations (Go body # as) = invocations body @ invocations as"
| "invocations (a # as) = invocations as"

text \<open>The languages an option list sets through \<open>opts.Language\<close>, in order.\<close>

fun languages :: "opt list \<Rightarrow> string list" where
  "languages [] = []"
| "languages (Language s # os) = s # languages os"
| "languages (x # os) = languages os"

text \<open>The bytes the producer forwarded into the pipe, in the order of its writes.\<close>

fun forwarded :: "action list \<Rightarrow> byte list" where
  "forwarded [] = []"
| "forwarded (PipeWrite bs # as) = bs @ forwarded as"
| "forwarded (a # as) = forwarded as"

text \<open>The bytes standard input delivered, in the order of the reads.\<close>

fun delivered :: "io_step list \<Rightarrow> byte list" where
  "delivered [] = []"
| "delivered ((ReadRes data err, w) # rs) = data @ delivered rs"

subsection \<open>Sample inputs\<close>

definition sample_options :: Options where
  "sample_options =
     \<lparr> cfg_language = ''auto'', cfg_continuous = False, cfg_interim = False,
       cfg_maxAlternatives = 1, cfg_profanityFilter = 2, cfg_outputEncoding = Binary,
       cfg_credential = [], cfg_userAgent = DefaultUserAgent \<rparr>"

definition sample_flac :: flac_file where
  "sample_flac = \<lparr> GetStreamInfo = Inr 44100, Marshal = [102, 76, 97, 67] \<rparr>"

definition broken_flac :: flac_file where
  "broken_flac = \<lparr> GetStreamInfo = Inl (OtherError ''stream info not found''), Marshal = [] \<rparr>"

text \<open>
  A file system with one well-formed FLAC file, one without stream info and one on which
  the parser panics; standard input behaves as the given steps say.
\<close>

definition sample_env :: "io_step list \<Rightarrow> env" where
  "sample_env steps =
     \<lparr> DefaultSampleRate = 16000,
       initial_options = sample_options,
       ParseFile = (\<lambda>path. if path = ''a.flac'' then Return (Inr sample_flac)
                            else if path = ''b.flac'' then Return (Inr broken_flac)
                            else if path = ''frameless.flac''
                              then Panic (OtherError ''runtime error: index out of range'')
                            else Return (Inl (OtherError ''no such file or directory''))),
       stdin_steps = steps \<rparr>"

section \<open>Properties\<close>

subsection \<open>Conversions at sample texts\<close>

lemma Atoi_abc: "Atoi ''abc'' = Inl (NumError ''Atoi'' ''abc'' ErrSyntax)"
  by (simp add: Atoi_def ParseInt_def ParseUint_def is_digit_def)

lemma Atoi_x2: "Atoi ''x2'' = Inl (NumError ''Atoi'' ''x2'' ErrSyntax)"
  by (simp add: Atoi_def ParseInt_def ParseUint_def is_digit_def)

lemma Atoi_1: "Atoi ''1'' = Inr 1"
  by (simp add: Atoi_def ParseInt_def ParseUint_def is_digit_def digit_val_def maxUint64_def)

lemma Atoi_2: "Atoi ''2'' = Inr 2"
  by (simp add: Atoi_def ParseInt_def ParseUint_def is_digit_def digit_val_def maxUint64_def)

lemma Atoi_minus_5: "Atoi ''-5'' = Inr (- 5)"
  by (simp add: Atoi_def ParseInt_def ParseUint_def is_digit_def digit_val_def maxUint64_def)

subsection \<open>The texts Atoi accepts\<close>

text \<open>
  \<open>Atoi\<close> accepts exactly the texts made of an optional sign and at least one decimal
  digit whose value fits a signed 64-bit integer, and returns that value.
\<close>

lemma decimal_value_simps [simp]:
  "decimal_value n [] = n"
  "decimal_value n (c # cs) = decimal_value (n * 10 + digit_val c) cs"
  by (simp_all add: decimal_value_def)

lemma decimal_value_mono: "n \<le> decimal_value n s"
proof (induction s arbitrary: n)
  case Nil
  then show ?case by simp
next
  case (Cons c cs)
  have "n \<le> n * 10 + digit_val c" by simp
  also have "\<dots> \<le> decimal_value (n * 10 + digit_val c) cs" by (rule Cons.IH)
  finally show ?case by simp
qed

lemma ParseUint_loop_iff:
  "n \<le> maxUint64 \<Longrightarrow>
   ParseUint_loop n s = Inr v \<longleftrightarrow>
     (list_all is_digit s \<and> v = decimal_value n s \<and> v \<le> maxUint64)"
proof (induction s arbitrary: n)
  case Nil
  then show ?case by auto
next
  case (Cons c cs)
  let ?n1 = "n * 10 + digit_val c"
  have ge: "?n1 \<le> decimal_value ?n1 cs" by (rule decimal_value_mono)
  show ?case
  proof (cases "is_digit c")
    case False
    then show ?thesis by simp
  next
    case True
    show ?thesis
    proof (cases "?n1 \<le> maxUint64")
      case le: True
      then have "\<not> n \<ge> maxUint64 div 10 + 1" by (simp add: maxUint64_def)
      with True le Cons.IH [OF le] show ?thesis by simp
    next
      case gt: False
      then have "\<not> decimal_value ?n1 cs \<le> maxUint64" using ge by linarith
      with True gt show ?thesis by auto
    qed
  qed
qed

lemma ParseUint_iff:
  "ParseUint s = Inr v \<longleftrightarrow> (digits s \<and> v = decimal_value 0 s \<and> v \<le> maxUint64)"
  using ParseUint_loop_iff [of 0 s v]
  by (auto simp: ParseUint_def digits_def)


lemma sign_not_digit: "\<not> is_digit (CHR ''+'')" "\<not> is_digit (CHR ''-'')"
  by (simp_all add: is_digit_def)

lemma ParseUint_Inl:
  "ParseUint s = Inl k \<Longrightarrow> \<not> (digits s \<and> decimal_value 0 s \<le> maxUint64)"
  using ParseUint_iff [of s "decimal_value 0 s"] by auto

lemma ParseInt_unsigned:
  assumes "s \<noteq> []" "hd s \<noteq> CHR ''+''" "hd s \<noteq> CHR ''-''"
  shows "ParseInt s = Inr v \<longleftrightarrow>
           (digits s \<and> decimal_value 0 s < 2 ^ 63 \<and> v = int (decimal_value 0 s))"
proof (cases "ParseUint s")
  case (Inl k)
  from ParseUint_Inl [OF Inl] have "\<not> (digits s \<and> decimal_value 0 s < 2 ^ 63)"
    by (auto simp: maxUint64_def)
  moreover have "ParseInt s \<noteq> Inr v"
    using assms Inl by (cases k) (simp_all add: ParseInt_def)
  ultimately show ?thesis by blast
next
  case (Inr un)
  then have "digits s" "un = decimal_value 0 s" by (simp_all add: ParseUint_iff)
  with assms Inr show ?thesis by (auto simp: ParseInt_def)
qed

lemma ParseInt_plus:
  "ParseInt (CHR ''+'' # ds) = Inr v \<longleftrightarrow>
           (digits ds \<and> decimal_value 0 ds < 2 ^ 63 \<and> v = int (decimal_value 0 ds))"
proof (cases "ParseUint ds")
  case (Inl k)
  from ParseUint_Inl [OF Inl] have "\<not> (digits ds \<and> decimal_value 0 ds < 2 ^ 63)"
    by (auto simp: maxUint64_def)
  moreover have "ParseInt (CHR ''+'' # ds) \<noteq> Inr v"
    using Inl by (cases k) (simp_all add: ParseInt_def)
  ultimately show ?thesis by blast
next
  case (Inr un)
  then have "digits ds" "un = decimal_value 0 ds" by (simp_all add: ParseUint_iff)
  with Inr show ?thesis by (auto simp: ParseInt_def)
qed

lemma ParseInt_minus:
  "ParseInt (CHR ''-'' # ds) = Inr v \<longleftrightarrow>
           (digits ds \<and> decimal_value 0 ds \<le> 2 ^ 63 \<and> v = - int (decimal_value 0 ds))"
proof (cases "ParseUint ds")
  case (Inl k)
  from ParseUint_Inl [OF Inl] have "\<not> (digits ds \<and> decimal_value 0 ds \<le> 2 ^ 63)"
    by (auto simp: maxUint64_def)
  moreover have "ParseInt (CHR ''-'' # ds) \<noteq> Inr v"
    using Inl by (cases k) (simp_all add: ParseInt_def)
  ultimately show ?thesis by blast
next
  case (Inr un)
  then have "digits ds" "un = decimal_value 0 ds" by (simp_all add: ParseUint_iff)
  with Inr show ?thesis by (auto simp: ParseInt_def)
qed

lemma Atoi_Inr: "Atoi s = Inr v \<longleftrightarrow> ParseInt s = Inr v"
  by (simp add: Atoi_def split: sum.splits)

lemma Atoi_accepts:
  "Atoi s = Inr v \<longleftrightarrow>
     (\<exists>ds. digits ds \<and>
        ((s = ds \<or> s = CHR ''+'' # ds) \<and> decimal_value 0 ds < 2 ^ 63 \<and>
           v = int (decimal_value 0 ds)
         \<or> s = CHR ''-'' # ds \<and> decimal_value 0 ds \<le> 2 ^ 63 \<and>
           v = - int (decimal_value 0 ds)))"
proof (cases s)
  case Nil
  then show ?thesis by (auto simp: Atoi_Inr ParseInt_def digits_def)
next
  case (Cons c cs)
  consider "c = CHR ''+''" | "c = CHR ''-''" | "c \<noteq> CHR ''+''" "c \<noteq> CHR ''-''" by blast
  then show ?thesis
  proof cases
    case 1
    with Cons show ?thesis
      using sign_not_digit by (auto simp: Atoi_Inr ParseInt_plus digits_def)
  next
    case 2
    with Cons show ?thesis
      using sign_not_digit by (auto simp: Atoi_Inr ParseInt_minus digits_def)
  next
    case 3
    with Cons have "ParseInt s = Inr v \<longleftrightarrow>
           (digits s \<and> decimal_value 0 s < 2 ^ 63 \<and> v = int (decimal_value 0 s))"
      using ParseInt_unsigned [of s v] by simp
    with 3 Cons show ?thesis by (auto simp: Atoi_Inr)
  qed
qed

subsection \<open>What fromFlags stores\<close>

lemma enc_plain:
  "cfg_outputEncoding (foldl set_opt c (plain_options fl)) =
     (if output fl = [] then cfg_outputEncoding c
      else if output fl = ''json'' then Text else Binary)"
  by (simp add: plain_options_def)

lemma lang_plain:
  "cfg_language (foldl set_opt c (plain_options fl)) =
     (if language fl = [] then cfg_language c else language fl)"
  by (simp add: plain_options_def)

lemma numeric_option_Return:
  "numeric_option mk s os = Return os' \<Longrightarrow> os' = os \<or> (\<exists>n. os' = os @ [mk n])"
  by (auto simp: numeric_option_def split: if_splits sum.splits)

lemma flag_options_Return:
  assumes "flag_options fl = Return os"
  shows "\<exists>ms ps. os = plain_options fl @ ms @ ps @
            [UserAgent (GetOrDefault (userAgent fl) DefaultUserAgent)]
          \<and> (ms = [] \<or> (\<exists>n. ms = [MaxAlts n]))
          \<and> (ps = [] \<or> (\<exists>n. ps = [ProfanityFilter n]))"
proof -
  from assms obtain os1 os2 where
    1: "numeric_option MaxAlts (maxAlts fl) (plain_options fl) = Return os1" and
    2: "numeric_option ProfanityFilter (pFilter fl) os1 = Return os2" and
    3: "os = os2 @ [UserAgent (GetOrDefault (userAgent fl) DefaultUserAgent)]"
    by (auto simp: flag_options_def split: result.splits)
  from numeric_option_Return [OF 1] obtain ms where
    ms: "os1 = plain_options fl @ ms" "ms = [] \<or> (\<exists>n. ms = [MaxAlts n])"
    by auto
  from numeric_option_Return [OF 2] obtain ps where
    ps: "os2 = os1 @ ps" "ps = [] \<or> (\<exists>n. ps = [ProfanityFilter n])"
    by auto
  show ?thesis using 3 ms ps by auto
qed

lemma fromFlags_encoding:
  assumes "fromFlags init fl = Return c"
  shows "cfg_outputEncoding c =
     (if output fl = [] then cfg_outputEncoding init
      else if output fl = ''json'' then Text else Binary)"
proof -
  from assms obtain os where os: "flag_options fl = Return os" and c: "c = Apply init os"
    by (auto simp: fromFlags_def split: result.splits)
  from flag_options_Return [OF os] obtain ms ps where
    "os = plain_options fl @ ms @ ps @ [UserAgent (GetOrDefault (userAgent fl) DefaultUserAgent)]"
    "ms = [] \<or> (\<exists>n. ms = [MaxAlts n])" "ps = [] \<or> (\<exists>n. ps = [ProfanityFilter n])"
    by blast
  then have "cfg_outputEncoding (Apply init os) = cfg_outputEncoding (foldl set_opt init (plain_options fl))"
    by (auto simp: Apply_def)
  then show ?thesis using c by (simp only: enc_plain)
qed

lemma fromFlags_language:
  assumes "fromFlags init fl = Return c"
  shows "cfg_language c = (if language fl = [] then cfg_language init else language fl)"
proof -
  from assms obtain os where os: "flag_options fl = Return os" and c: "c = Apply init os"
    by (auto simp: fromFlags_def split: result.splits)
  from flag_options_Return [OF os] obtain ms ps where
    "os = plain_options fl @ ms @ ps @ [UserAgent (GetOrDefault (userAgent fl) DefaultUserAgent)]"
    "ms = [] \<or> (\<exists>n. ms = [MaxAlts n])" "ps = [] \<or> (\<exists>n. ps = [ProfanityFilter n])"
    by blast
  then have "cfg_language (Apply init os) = cfg_language (foldl set_opt init (plain_options fl))"
    by (auto simp: Apply_def)
  then show ?thesis using c by (simp only: lang_plain)
qed

lemma language_foldl:
  "\<forall>a\<in>set args. \<not> is_language_arg a \<Longrightarrow> language (foldl set_flag fl args) = language fl"
proof (induction args arbitrary: fl)
  case Nil then show ?case by simp
next
  case (Cons a args)
  then have "language (set_flag fl a) = language fl" by (cases a) auto
  with Cons show ?case by simp
qed

lemma flag_options_default:
  "flag_options default_flags =
     Return [Language ''null'', MaxAlts 1, ProfanityFilter 2, UserAgent DefaultUserAgent]"
  by (simp add: flag_options_def numeric_option_def plain_options_def default_flags_def
      Atoi_1 Atoi_2 GetOrDefault_def)

lemma numeric_option_total:
  "\<not> (s \<noteq> [] \<and> isl (Atoi s)) \<Longrightarrow> \<exists>os'. numeric_option mk s os = Return os'"
  by (cases "Atoi s") (auto simp: numeric_option_def)

subsection \<open>Numeric options\<close>

lemma fromFlags_panics:
  assumes "(maxAlts fl \<noteq> [] \<and> isl (Atoi (maxAlts fl))) \<or>
           (pFilter fl \<noteq> [] \<and> isl (Atoi (pFilter fl)))"
  shows "\<exists>s k. s \<in> {maxAlts fl, pFilter fl} \<and>
           fromFlags init fl = Panic (NumError ''Atoi'' s k)"
proof (cases "maxAlts fl \<noteq> [] \<and> isl (Atoi (maxAlts fl))")
  case True
  then obtain k where "Atoi (maxAlts fl) = Inl (NumError ''Atoi'' (maxAlts fl) k)"
    by (auto simp: Atoi_def split: sum.splits)
  with True have "fromFlags init fl = Panic (NumError ''Atoi'' (maxAlts fl) k)"
    by (simp add: fromFlags_def flag_options_def numeric_option_def)
  then show ?thesis by blast
next
  case False
  with assms have p: "pFilter fl \<noteq> []" "isl (Atoi (pFilter fl))" by auto
  then obtain k where k: "Atoi (pFilter fl) = Inl (NumError ''Atoi'' (pFilter fl) k)"
    by (auto simp: Atoi_def split: sum.splits)
  from numeric_option_total [OF False] obtain os where
    os: "numeric_option MaxAlts (maxAlts fl) (plain_options fl) = Return os"
    by blast
  have "numeric_option ProfanityFilter (pFilter fl) os = Panic (NumError ''Atoi'' (pFilter fl) k)"
    using p k by (simp add: numeric_option_def)
  with os have "fromFlags init fl = Panic (NumError ''Atoi'' (pFilter fl) k)"
    by (simp add: fromFlags_def flag_options_def)
  then show ?thesis by blast
qed

text \<open>
  C2, as the code has it: a max-alternatives or profanity-filter text that is not empty
  and that \<open>strconv.Atoi\<close> rejects (lemma \<open>Atoi_accepts\<close> says which texts it accepts:
  negative numbers are among them) makes \<open>fromFlags\<close> panic with the conversion error
  of one of the two texts; no error value is returned to the caller.
\<close>

theorem unparsable_numeric_option_panics:
  assumes "(maxAlts fl \<noteq> [] \<and> isl (Atoi (maxAlts fl))) \<or>
           (pFilter fl \<noteq> [] \<and> isl (Atoi (pFilter fl)))"
  shows "\<exists>s k. s \<in> {maxAlts fl, pFilter fl} \<and>
           fromFlags init fl = Panic (NumError ''Atoi'' s k)"
  using assms by (rule fromFlags_panics)

theorem unparsable_numeric_option_panics_witness:
  "pFilter (default_flags\<lparr>pFilter := ''x2''\<rparr>) \<noteq> [] \<and>
   isl (Atoi (pFilter (default_flags\<lparr>pFilter := ''x2''\<rparr>))) \<and>
   (\<exists>s k. s \<in> {maxAlts (default_flags\<lparr>pFilter := ''x2''\<rparr>),
                 pFilter (default_flags\<lparr>pFilter := ''x2''\<rparr>)} \<and>
      fromFlags sample_options (default_flags\<lparr>pFilter := ''x2''\<rparr>)
        = Panic (NumError ''Atoi'' s k))"
proof -
  have h: "pFilter (default_flags\<lparr>pFilter := ''x2''\<rparr>) \<noteq> [] \<and>
           isl (Atoi (pFilter (default_flags\<lparr>pFilter := ''x2''\<rparr>)))"
    by (simp add: Atoi_x2)
  from h unparsable_numeric_option_panics
    [of "default_flags\<lparr>pFilter := ''x2''\<rparr>" sample_options]
  show ?thesis by blast
qed

theorem panic_on_text_counterexample:
  "fromFlags sample_options (default_flags\<lparr>maxAlts := ''abc''\<rparr>)
     = Panic (NumError ''Atoi'' ''abc'' ErrSyntax)"
  by (simp add: fromFlags_def flag_options_def numeric_option_def default_flags_def Atoi_abc)

lemma fromFlags_returns:
  assumes "Atoi (maxAlts fl) = Inr m" and "Atoi (pFilter fl) = Inr p"
  shows "\<exists>c. fromFlags init fl = Return c"
  using assms by (simp add: fromFlags_def flag_options_def numeric_option_def)

subsection \<open>Output encoding\<close>

text \<open>
  C5: when the configuration that \<open>Apply\<close> starts from has the binary encoding, the
  configuration \<open>fromFlags\<close> returns has the text encoding exactly when the output flag
  is \<open>json\<close>, and the binary encoding for every other value, the empty one included.
\<close>

theorem output_encoding_from_flag:
  assumes "cfg_outputEncoding init = Binary" and "fromFlags init fl = Return c"
  shows "(cfg_outputEncoding c = Text \<longleftrightarrow> output fl = ''json'') \<and>
         (output fl \<noteq> ''json'' \<longrightarrow> cfg_outputEncoding c = Binary)"
  using assms(1) fromFlags_encoding [OF assms(2)] by auto

theorem output_encoding_from_flag_witness:
  "cfg_outputEncoding sample_options = Binary \<and>
   (\<exists>c. fromFlags sample_options (default_flags\<lparr>output := ''json''\<rparr>) = Return c \<and>
        cfg_outputEncoding c = Text)"
proof -
  have b: "cfg_outputEncoding sample_options = Binary"
    by (simp add: sample_options_def)
  obtain c where c: "fromFlags sample_options (default_flags\<lparr>output := ''json''\<rparr>) = Return c"
    using fromFlags_returns [of "default_flags\<lparr>output := ''json''\<rparr>" 1 2 sample_options]
    by (auto simp: default_flags_def Atoi_1 Atoi_2)
  have "cfg_outputEncoding c = Text"
    using output_encoding_from_flag [OF b c] by simp
  with b c show ?thesis by blast
qed

subsection \<open>Language\<close>

lemma languages_append: "languages (xs @ ys) = languages xs @ languages ys"
  by (induction xs rule: languages.induct) simp_all

lemma languages_plain:
  "languages (plain_options fl) = (if language fl = [] then [] else [language fl])"
  by (simp add: plain_options_def languages_append)

lemma languages_flag_options:
  assumes "flag_options fl = Return os"
  shows "languages os = (if language fl = [] then [] else [language fl])"
proof -
  from flag_options_Return [OF assms] obtain ms ps where
    "os = plain_options fl @ ms @ ps @ [UserAgent (GetOrDefault (userAgent fl) DefaultUserAgent)]"
    "ms = [] \<or> (\<exists>n. ms = [MaxAlts n])" "ps = [] \<or> (\<exists>n. ps = [ProfanityFilter n])"
    by blast
  then have "languages os = languages (plain_options fl)"
    by (auto simp: languages_append)
  then show ?thesis by (simp only: languages_plain)
qed

text \<open>
  C9, as the code has it: when the command line sets no language, the language flag
  keeps its registered default, the text \<open>null\<close>, and that text is the one language
  \<open>fromFlags\<close> hands to the configuration through \<open>opts.Language\<close>.
\<close>

theorem default_language_is_null:
  assumes "\<forall>a\<in>set args. \<not> is_language_arg a"
    and "flag_options (parse_flags args) = Return os"
  shows "language (parse_flags args) = ''null'' \<and> languages os = [''null'']"
proof -
  have "language (parse_flags args) = ''null''"
    using language_foldl [OF assms(1), of default_flags]
    by (simp add: parse_flags_def default_flags_def)
  then show ?thesis using languages_flag_options [OF assms(2)] by simp
qed

theorem default_language_is_null_witness:
  "\<not> is_language_arg (ArgKey ''k'') \<and>
   (\<exists>os. flag_options (parse_flags [ArgKey ''k'']) = Return os \<and>
        language (parse_flags [ArgKey ''k'']) = ''null'' \<and> languages os = [''null''])"
proof -
  have a: "\<forall>a\<in>set [ArgKey ''k'']. \<not> is_language_arg a" by simp
  obtain os where os: "flag_options (parse_flags [ArgKey ''k'']) = Return os"
    by (simp add: flag_options_def numeric_option_def parse_flags_def
        default_flags_def Atoi_1 Atoi_2)
  from default_language_is_null [OF a os] os show ?thesis by auto
qed

theorem language_not_auto_counterexample:
  "map_result languages (flag_options (parse_flags [])) = Return [''null''] \<and>
   map_result languages (flag_options (parse_flags [])) \<noteq> Return [''auto'']"
  by (simp add: parse_flags_def flag_options_default)

subsection \<open>Traces of main\<close>

lemma invocations_append: "invocations (xs @ ys) = invocations xs @ invocations ys"
  by (induction xs rule: invocations.induct) simp_all

lemma invocations_startup: "invocations (startup fl) = []"
  by (simp add: startup_def)

lemma invocations_stdin_loop: "invocations (snd (stdin_loop bs steps)) = []"
proof (induction bs steps rule: stdin_loop.induct)
  case (1 bs)
  then show ?case by simp
next
  case (2 bs data err w rs)
  then show ?case
    by (auto simp: Let_def split: write_result.splits prod.splits)
qed

lemma main_mic:
  assumes "fromFlags (initial_options ev) fl = Return c" and "filePath fl = []"
  shows "main ev fl =
     (fst (stdin_loop (replicate 1024 0) (stdin_steps ev)),
      startup fl @
        Go [Stream FromPipeReader (DefaultSampleRate ev) c, PipeWriterClose, PipeReaderClose]
          # snd (stdin_loop (replicate 1024 0) (stdin_steps ev)))"
  using assms by (simp add: main_def split: prod.splits)

lemma main_panic:
  assumes "fromFlags (initial_options ev) fl = Panic e"
  shows "main ev fl = (Panicked e, startup fl)"
  using assms by (simp add: main_def)

lemma main_rates:
  "map (fst \<circ> snd) (invocations (snd (main ev fl))) =
     (case fromFlags (initial_options ev) fl of
        Panic e \<Rightarrow> []
      | Return c \<Rightarrow>
          if filePath fl \<noteq> [] then
            (case ParseFile ev (filePath fl) of
               Panic e \<Rightarrow> []
             | Return (Inl e) \<Rightarrow> []
             | Return (Inr f) \<Rightarrow> (case GetStreamInfo f of Inl e \<Rightarrow> [] | Inr r \<Rightarrow> [r]))
          else [DefaultSampleRate ev])"
proof (cases "fromFlags (initial_options ev) fl")
  case (Panic e)
  then show ?thesis by (simp add: main_panic invocations_startup)
next
  case (Return c)
  show ?thesis
  proof (cases "filePath fl = []")
    case True
    with Return show ?thesis
      by (simp add: main_mic invocations_append invocations_startup invocations_stdin_loop)
  next
    case False
    with Return show ?thesis
      by (simp add: main_def invocations_append invocations_startup
          split: sum.splits result.splits)
  qed
qed

subsection \<open>Failures before streaming\<close>

text \<open>
  C6, as the code has it: when the max-alternatives or the profanity-filter text is not
  empty and is rejected by the conversion, main fails inside \<open>fromFlags\<close>: by then it has
  only set the log level and constructed the client, so the streaming operation is never
  invoked, neither directly nor in a goroutine, and nothing is written to the pipe.
\<close>

theorem invalid_option_fails_before_streaming:
  assumes "(maxAlts fl \<noteq> [] \<and> isl (Atoi (maxAlts fl))) \<or>
           (pFilter fl \<noteq> [] \<and> isl (Atoi (pFilter fl)))"
  shows "(\<exists>e. main ev fl = (Panicked e, startup fl)) \<and>
         invocations (snd (main ev fl)) = [] \<and>
         forwarded (snd (main ev fl)) = []"
proof -
  from fromFlags_panics [OF assms] obtain e where
    "fromFlags (initial_options ev) fl = Panic e" by blast
  then have "main ev fl = (Panicked e, startup fl)" by (rule main_panic)
  then show ?thesis by (simp add: invocations_startup startup_def)
qed

theorem invalid_option_fails_before_streaming_witness:
  "maxAlts (default_flags\<lparr>maxAlts := ''abc''\<rparr>) \<noteq> [] \<and>
   isl (Atoi (maxAlts (default_flags\<lparr>maxAlts := ''abc''\<rparr>))) \<and>
   (\<exists>e. main (sample_env []) (default_flags\<lparr>maxAlts := ''abc''\<rparr>)
          = (Panicked e, startup (default_flags\<lparr>maxAlts := ''abc''\<rparr>))) \<and>
   invocations (snd (main (sample_env []) (default_flags\<lparr>maxAlts := ''abc''\<rparr>))) = []"
proof -
  have h: "maxAlts (default_flags\<lparr>maxAlts := ''abc''\<rparr>) \<noteq> [] \<and>
           isl (Atoi (maxAlts (default_flags\<lparr>maxAlts := ''abc''\<rparr>)))"
    by (simp add: Atoi_abc)
  from h invalid_option_fails_before_streaming
    [of "default_flags\<lparr>maxAlts := ''abc''\<rparr>" "sample_env []"]
  show ?thesis by blast
qed

text \<open>
  C6 fails as stated: the empty text is rejected by the conversion too, but \<open>fromFlags\<close>
  skips an empty max-alternatives text, so the run does not fail: it invokes the
  streaming operation and returns at the end of standard input.
\<close>

theorem empty_option_streams_counterexample:
  "Atoi (maxAlts (default_flags\<lparr>maxAlts := []\<rparr>)) = Inl (NumError ''Atoi'' [] ErrSyntax) \<and>
   fst (main (sample_env [(ReadRes [] (Some EOF), WriteOk)]) (default_flags\<lparr>maxAlts := []\<rparr>))
     = Returned \<and>
   map (fst \<circ> snd)
     (invocations (snd (main (sample_env [(ReadRes [] (Some EOF), WriteOk)])
        (default_flags\<lparr>maxAlts := []\<rparr>)))) = [16000]"
proof -
  let ?ev = "sample_env [(ReadRes [] (Some EOF), WriteOk)]"
  let ?fl = "default_flags\<lparr>maxAlts := []\<rparr>"
  have a: "Atoi (maxAlts ?fl) = Inl (NumError ''Atoi'' [] ErrSyntax)"
    by (simp add: Atoi_def ParseInt_def)
  have "\<exists>c. fromFlags (initial_options ?ev) ?fl = Return c"
    by (simp add: fromFlags_def flag_options_def numeric_option_def default_flags_def Atoi_2)
  then obtain c where c: "fromFlags (initial_options ?ev) ?fl = Return c" by blast
  have f: "filePath ?fl = []" by (simp add: default_flags_def)
  have m: "main ?ev ?fl =
     (fst (stdin_loop (replicate 1024 0) (stdin_steps ?ev)),
      startup ?fl @
        Go [Stream FromPipeReader (DefaultSampleRate ?ev) c, PipeWriterClose, PipeReaderClose]
          # snd (stdin_loop (replicate 1024 0) (stdin_steps ?ev)))"
    using c f by (rule main_mic)
  have s: "stdin_steps ?ev = [(ReadRes [] (Some EOF), WriteOk)]" "DefaultSampleRate ?ev = 16000"
    by (simp_all add: sample_env_def)
  have 1: "fst (main ?ev ?fl) = Returned"
    by (simp add: m s)
  have 2: "map (fst \<circ> snd) (invocations (snd (main ?ev ?fl))) = [16000]"
    by (simp add: m s invocations_append invocations_startup)
  from a 1 2 show ?thesis by simp
qed

subsection \<open>Sample rate\<close>

text \<open>
  C7: the sample rates main passes to the streaming operation, in every run: none when
  option building panics, the parser panics or the file cannot be read; the sample rate
  declared in the
  file's stream info when a file path is given; \<open>opts.DefaultSampleRate\<close> when the
  input is standard input.
\<close>

theorem sample_rate_passed:
  "map (fst \<circ> snd) (invocations (snd (main ev fl))) =
     (case fromFlags (initial_options ev) fl of
        Panic e \<Rightarrow> []
      | Return c \<Rightarrow>
          if filePath fl \<noteq> [] then
            (case ParseFile ev (filePath fl) of
               Panic e \<Rightarrow> []
             | Return (Inl e) \<Rightarrow> []
             | Return (Inr f) \<Rightarrow> (case GetStreamInfo f of Inl e \<Rightarrow> [] | Inr r \<Rightarrow> [r]))
          else [DefaultSampleRate ev])"
  by (rule main_rates)

lemma fromFlags_sample_file:
  "\<exists>c. fromFlags sample_options (default_flags\<lparr>filePath := p\<rparr>) = Return c"
  using fromFlags_returns [of "default_flags\<lparr>filePath := p\<rparr>" 1 2 sample_options]
  by (simp add: default_flags_def Atoi_1 Atoi_2)

lemma fromFlags_sample_default:
  "\<exists>c. fromFlags sample_options default_flags = Return c"
  using fromFlags_returns [of default_flags 1 2 sample_options]
  by (simp add: default_flags_def Atoi_1 Atoi_2)

theorem sample_rate_passed_witness:
  "map (fst \<circ> snd)
     (invocations (snd (main (sample_env []) (default_flags\<lparr>filePath := ''a.flac''\<rparr>))))
     = [44100] \<and>
   map (fst \<circ> snd) (invocations (snd (main (sample_env []) default_flags))) = [16000]"
proof -
  obtain c where c: "fromFlags sample_options (default_flags\<lparr>filePath := ''a.flac''\<rparr>) = Return c"
    using fromFlags_sample_file by blast
  obtain d where d: "fromFlags sample_options default_flags = Return d"
    using fromFlags_sample_default by blast
  have 1: "map (fst \<circ> snd)
     (invocations (snd (main (sample_env []) (default_flags\<lparr>filePath := ''a.flac''\<rparr>))))
     = [44100]"
    using c sample_rate_passed [of "sample_env []" "default_flags\<lparr>filePath := ''a.flac''\<rparr>"]
    by (simp add: sample_env_def sample_flac_def)
  have 2: "map (fst \<circ> snd) (invocations (snd (main (sample_env []) default_flags))) = [16000]"
    using d sample_rate_passed [of "sample_env []" default_flags]
    by (simp add: sample_env_def default_flags_def)
  from 1 2 show ?thesis by simp
qed

subsection \<open>Unreadable files\<close>




subsection \<open>The loop over standard input\<close>

lemma fromFlags_default:
  "fromFlags sample_options default_flags =
     Return (Apply sample_options
       [Language ''null'', MaxAlts 1, ProfanityFilter 2, UserAgent DefaultUserAgent])"
  by (simp add: fromFlags_def flag_options_default)




lemma main_sample:
  "main (sample_env steps) default_flags =
     (fst (stdin_loop (replicate 1024 0) steps),
      ClientNew #
      Go [Stream FromPipeReader 16000
            (Apply sample_options
               [Language ''null'', MaxAlts 1, ProfanityFilter 2, UserAgent DefaultUserAgent]),
          PipeWriterClose, PipeReaderClose] #
      snd (stdin_loop (replicate 1024 0) steps))"
proof -
  have 1: "fromFlags (initial_options (sample_env steps)) default_flags =
     Return (Apply sample_options
       [Language ''null'', MaxAlts 1, ProfanityFilter 2, UserAgent DefaultUserAgent])"
    by (simp add: sample_env_def fromFlags_default)
  have 2: "filePath default_flags = []" by (simp add: default_flags_def)
  have 3: "startup default_flags = [ClientNew]" by (simp add: startup_def default_flags_def)
  have 4: "DefaultSampleRate (sample_env steps) = 16000"
    "stdin_steps (sample_env steps) = steps" by (simp_all add: sample_env_def)
  show ?thesis using main_mic [OF 1 2] by (simp add: 3 4)
qed

subsection \<open>Bytes forwarded\<close>

text \<open>
  C1 fails on the code: after a read that delivers three bytes, the program writes the
  whole buffer of 1024 bytes to the pipe, the three bytes read followed by the 1021 bytes
  the buffer held before, while standard input delivered three bytes in all.
\<close>

theorem partial_read_forwards_whole_buffer:
  "forwarded (snd (main (sample_env [(ReadRes [97, 98, 99] None, WriteOk),
                                     (ReadRes [] (Some EOF), WriteOk)]) default_flags))
     = [97, 98, 99] @ replicate 1021 0 \<and>
   delivered [(ReadRes [97, 98, 99] None, WriteOk), (ReadRes [] (Some EOF), WriteOk)]
     = [97, 98, 99]"
  by (simp add: main_sample)

subsection \<open>End of input\<close>

text \<open>
  C4 fails on the code: when the first read of standard input reports end of file, main
  logs and returns; the producer never closes the write side of the pipe. The only
  \<open>pw.Close\<close> is the one deferred in the goroutine, after the streaming operation.
\<close>

theorem eof_returns_without_closing:
  "fst (main (sample_env [(ReadRes [] (Some EOF), WriteOk)]) default_flags) = Returned \<and>
   snd (main (sample_env [(ReadRes [] (Some EOF), WriteOk)]) default_flags) =
     [ClientNew,
      Go [Stream FromPipeReader 16000
            (Apply sample_options
               [Language ''null'', MaxAlts 1, ProfanityFilter 2, UserAgent DefaultUserAgent]),
          PipeWriterClose, PipeReaderClose],
      LogInfo ''done reading from stdin'']"
  by (simp add: main_sample)

subsection \<open>Failures of the audio source\<close>




end
